theory Spec2Isabelle
  imports Main "HOL-Library.Multiset" "HOL-Library.Sublist"
begin

section \<open>The deal pipeline board of ProBrosCRMApp\<close>

text \<open>
  A shallow embedding of the \<^verbatim>\<open>KanbanBoard\<close> component
  (\<^verbatim>\<open>src/src/components/KanbanCard.tsx\<close>, lines 66 to 231) and of the types it uses
  (\<^verbatim>\<open>src/src/App.tsx\<close>, lines 138 to 181).  The component's React state is a record,
  every state setter is a record update, and everything the component does to the outside
  world (requests, callbacks, console output, timers) is appended to a list of effects.
  An \<^verbatim>\<open>async\<close> handler is split at its single \<^verbatim>\<open>await\<close>: the part before it
  returns the variables its closure keeps, the part after it takes them back together with
  the outcome of the request and the state the component has at that moment.
\<close>

subsection \<open>Types\<close>

text \<open>\<^verbatim>\<open>DealStatus\<close>: a closed union of eight string literals.\<close>

datatype DealStatus =
    lead
  | contacted
  | "qualified"
  | quotes_sent
  | trial_order
  | active_customer
  | retained_growing
  | lost_customer

text \<open>The string each literal is at run time (used when a status is put into a message).\<close>

fun DealStatus_str :: "DealStatus \<Rightarrow> string" where
  "DealStatus_str lead = ''lead''"
| "DealStatus_str contacted = ''contacted''"
| "DealStatus_str qualified = ''qualified''"
| "DealStatus_str quotes_sent = ''quotes_sent''"
| "DealStatus_str trial_order = ''trial_order''"
| "DealStatus_str active_customer = ''active_customer''"
| "DealStatus_str retained_growing = ''retained_growing''"
| "DealStatus_str lost_customer = ''lost_customer''"

text \<open>
  \<^verbatim>\<open>interface Deal\<close>.  The fields the board reads or writes are \<^verbatim>\<open>id\<close>,
  \<^verbatim>\<open>status\<close> and \<^verbatim>\<open>color\<close>; \<^verbatim>\<open>title\<close>, \<^verbatim>\<open>value\<close>, \<^verbatim>\<open>company\<close> and
  \<^verbatim>\<open>owner\<close> are shown on the card.  The remaining optional fields (\<^verbatim>\<open>description\<close>,
  \<^verbatim>\<open>contact\<close>, \<^verbatim>\<open>commission\<close>, \<^verbatim>\<open>activity_logs\<close>, \<^verbatim>\<open>created_at\<close>,
  \<^verbatim>\<open>updated_at\<close>) live in the extension slot of the record, so every function below is
  stated for \<open>'z Deal_scheme\<close> and an object spread keeps them.  An optional field is an
  \<open>option\<close>.  Identifiers and amounts are integers; the numbers of the language print
  and parse an integer exactly as long as it is below \<open>2 ^ 53\<close> in absolute value, and
  that is the range meant here.
\<close>

record Deal =
  deal_id :: int
  title :: string
  deal_value :: int
  status :: DealStatus
  color :: "string option"
  company :: "string option"
  owner :: "string option"

text \<open>\<^verbatim>\<open>interface KanbanColumnDef\<close>.\<close>

record KanbanColumnDef =
  col_id :: DealStatus
  label :: string

text \<open>
  \<^verbatim>\<open>DropResult\<close> of the drag-and-drop library, as far as \<^verbatim>\<open>handleDragEnd\<close> reads it.
  A droppable of this board is a column (\<^verbatim>\<open>KanbanColumn.tsx\<close>, line 37:
  \<^verbatim>\<open>droppableId={column.id}\<close>), and the handler casts the identifier to
  \<^verbatim>\<open>DealStatus\<close>, so \<open>droppableId\<close> has that type.
\<close>

record DraggableLocation =
  droppableId :: DealStatus
  index :: nat

record DropResult =
  destination :: "DraggableLocation option"
  source :: DraggableLocation
  draggableId :: string

text \<open>What the component does to the world outside its own state.\<close>

datatype effect =
    ApiGet                        \<comment> \<open>\<^verbatim>\<open>api.get('/deals')\<close>\<close>
  | ApiPatch int DealStatus       \<comment> \<open>\<^verbatim>\<open>api.patch(`/deals/${dealId}`, { status: newStatus })\<close>\<close>
  | StatsRefresh                  \<comment> \<open>\<^verbatim>\<open>onStatsRefresh()\<close>\<close>
  | DealsCountChange nat          \<comment> \<open>\<^verbatim>\<open>onDealsCountChange(n)\<close>\<close>
  | ConsoleError string           \<comment> \<open>\<^verbatim>\<open>console.error(msg, err)\<close>\<close>
  | ClearErrorAfter nat           \<comment> \<open>\<^verbatim>\<open>setTimeout(() => setError(null), ms)\<close>\<close>

text \<open>
  The five \<^verbatim>\<open>useState\<close> cells of \<^verbatim>\<open>KanbanBoard\<close>, and the effects so far.
  \<open>deals\<close> is the Deal Store of the specification.
\<close>

record 'z KanbanBoard =
  deals :: "'z Deal_scheme list"
  loading :: bool
  error :: "string option"
  updating :: "int option"
  selectedDealId :: "int option"
  effects :: "effect list"

text \<open>
  \<^verbatim>\<open>KanbanBoardProps\<close>: both callbacks are optional, and the component calls them with
  \<^verbatim>\<open>?.\<close>, so a property says whether the callback was passed.
\<close>

record KanbanBoardProps =
  onDealsCountChange :: bool
  onStatsRefresh :: bool

text \<open>The outcome of a request: the promise resolves or rejects.\<close>

datatype outcome = Resolved | Rejected

subsection \<open>Constants\<close>

definition COLUMNS :: "KanbanColumnDef list" where
  "COLUMNS =
    [\<lparr>col_id = lead, label = ''Lead''\<rparr>,
     \<lparr>col_id = contacted, label = ''Contacted''\<rparr>,
     \<lparr>col_id = qualified, label = ''Qualified''\<rparr>,
     \<lparr>col_id = quotes_sent, label = ''Quotes / Pricing Sent''\<rparr>,
     \<lparr>col_id = trial_order, label = ''Trial Order''\<rparr>,
     \<lparr>col_id = active_customer, label = ''Active Customer''\<rparr>,
     \<lparr>col_id = retained_growing, label = ''Retained / Growing''\<rparr>,
     \<lparr>col_id = lost_customer, label = ''Lost Customer''\<rparr>]"

fun STATUS_COLORS :: "DealStatus \<Rightarrow> string" where
  "STATUS_COLORS lead = ''#3b82f6''"
| "STATUS_COLORS contacted = ''#8b5cf6''"
| "STATUS_COLORS qualified = ''#6366f1''"
| "STATUS_COLORS quotes_sent = ''#eab308''"
| "STATUS_COLORS trial_order = ''#f97316''"
| "STATUS_COLORS active_customer = ''#10b981''"
| "STATUS_COLORS retained_growing = ''#22c55e''"
| "STATUS_COLORS lost_customer = ''#ef4444''"

text \<open>The state after \<^verbatim>\<open>useState\<close> has initialised every cell.\<close>

definition initial_board :: "'z KanbanBoard" where
  "initial_board =
    \<lparr>deals = [], loading = True, error = None, updating = None,
     selectedDealId = None, effects = []\<rparr>"

subsection \<open>Library functions of the language\<close>

text \<open>
  \<^verbatim>\<open>String(n)\<close> for an integer: decimal digits, with a minus sign when negative.
\<close>

definition digitChar :: "nat \<Rightarrow> char" where
  "digitChar d = ''0123456789'' ! d"

fun digits :: "nat \<Rightarrow> string" where
  "digits n =
    (if n < 10 then [digitChar n]
     else digits (n div 10) @ [digitChar (n mod 10)])"

declare digits.simps [simp del]

definition String_num :: "int \<Rightarrow> string" where
  "String_num n = (if n < 0 then CHR ''-'' # digits (nat (- n)) else digits (nat n))"

text \<open>
  \<^verbatim>\<open>parseInt(s, 10)\<close>: leading white space is skipped, one sign is read, then the longest
  run of decimal digits; no digit gives \<^verbatim>\<open>NaN\<close>, which is \<open>None\<close> here (\<^verbatim>\<open>NaN\<close> is
  equal to no number, so no deal has it as identifier).  A string is a list of bytes, so
  the white space is the ASCII one: tab, line feed, vertical tab, form feed, carriage
  return and space.
\<close>

definition isWhiteSpace :: "char \<Rightarrow> bool" where
  "isWhiteSpace c = ((9 \<le> (of_char c :: nat) \<and> (of_char c :: nat) \<le> 13) \<or> (of_char c :: nat) = 32)"

definition isDigit :: "char \<Rightarrow> bool" where
  "isDigit c = (48 \<le> (of_char c :: nat) \<and> (of_char c :: nat) \<le> 57)"

definition digitVal :: "char \<Rightarrow> nat" where
  "digitVal c = of_char c - 48"

definition parseInt10 :: "string \<Rightarrow> int option" where
  "parseInt10 s =
    (let t = dropWhile isWhiteSpace s;
         neg = (case t of [] \<Rightarrow> False | c # _ \<Rightarrow> c = CHR ''-'');
         u = (case t of [] \<Rightarrow> [] | c # cs \<Rightarrow> if c = CHR ''+'' \<or> c = CHR ''-'' then cs else t);
         z = takeWhile isDigit u
     in if z = [] then None
        else Some ((if neg then - 1 else 1) * int (foldl (\<lambda>a c. 10 * a + digitVal c) 0 z)))"

text \<open>
  \<^verbatim>\<open>Array.prototype.findIndex\<close>: the index of the first element satisfying the
  predicate, and \<open>- 1\<close> when there is none.
\<close>

fun findIndex :: "('a \<Rightarrow> bool) \<Rightarrow> 'a list \<Rightarrow> int" where
  "findIndex P [] = - 1"
| "findIndex P (x # xs) =
    (if P x then 0
     else (let k = findIndex P xs in if k = - 1 then - 1 else k + 1))"

subsection \<open>\<^verbatim>\<open>fetchDeals\<close>\<close>

text \<open>
  What \<^verbatim>\<open>await api.get('/deals')\<close> gives: the promise rejects, or it resolves with a
  body that holds the list under \<^verbatim>\<open>data\<close>, or with a body that is the list itself
  (the two shapes \<^verbatim>\<open>response.data.data || response.data\<close> accepts).
\<close>

datatype 'z get_response =
    GetRejected
  | GetWrapped "'z Deal_scheme list"
  | GetBare "'z Deal_scheme list"

text \<open>Lines 110 to 112: the \<^verbatim>\<open>try\<close> block up to the \<^verbatim>\<open>await\<close>.\<close>

definition fetchDeals_start :: "'z KanbanBoard \<Rightarrow> 'z KanbanBoard" where
  "fetchDeals_start b = b\<lparr>error := None, effects := effects b @ [ApiGet]\<rparr>"

text \<open>Lines 113 to 122: the rest of the \<^verbatim>\<open>try\<close>, the \<^verbatim>\<open>catch\<close> and the \<^verbatim>\<open>finally\<close>.\<close>

definition fetchDeals_resume ::
  "KanbanBoardProps \<Rightarrow> 'z get_response \<Rightarrow> 'z KanbanBoard \<Rightarrow> 'z KanbanBoard" where
  "fetchDeals_resume props resp b =
    (let b1 =
       (case resp of
          GetRejected \<Rightarrow>
            b\<lparr>effects := effects b @ [ConsoleError ''Failed to fetch deals:''],
              error := Some ''Failed to load deals. Please try again.''\<rparr>
        | GetWrapped dealsData \<Rightarrow>
            b\<lparr>deals := dealsData,
              effects := effects b @
                (if onDealsCountChange props then [DealsCountChange (length dealsData)] else [])\<rparr>
        | GetBare dealsData \<Rightarrow>
            b\<lparr>deals := dealsData,
              effects := effects b @
                (if onDealsCountChange props then [DealsCountChange (length dealsData)] else [])\<rparr>)
     in b1\<lparr>loading := False\<rparr>)"

text \<open>The whole call when nothing else runs while the request is in flight.\<close>

definition fetchDeals ::
  "KanbanBoardProps \<Rightarrow> 'z get_response \<Rightarrow> 'z KanbanBoard \<Rightarrow> 'z KanbanBoard" where
  "fetchDeals props resp b = fetchDeals_resume props resp (fetchDeals_start b)"

text \<open>
  Lines 179 to 200 of the render: while \<open>loading\<close> only a spinner is returned; afterwards
  a non-empty \<open>error\<close> is shown in a banner whose Retry button calls \<^verbatim>\<open>fetchDeals\<close>.
  The result is the text of that banner, if it is on the screen.
\<close>

definition retry_banner :: "'z KanbanBoard \<Rightarrow> string option" where
  "retry_banner b =
    (if loading b then None
     else (case error b of None \<Rightarrow> None | Some e \<Rightarrow> if e = [] then None else Some e))"

subsection \<open>\<^verbatim>\<open>handleDragEnd\<close>\<close>

text \<open>
  The variables of one call that its continuation after the \<^verbatim>\<open>await\<close> still uses:
  \<open>c_deals\<close> is the \<open>deals\<close> the handler closed over when it was called.
\<close>

record 'z drag_closure =
  c_deals :: "'z Deal_scheme list"
  c_dealId :: int
  c_newStatus :: DealStatus
  c_oldStatus :: DealStatus
  c_dealIndex :: int
  c_originalDeal :: "'z Deal_scheme"

text \<open>
  Lines 130 to 154, up to the \<^verbatim>\<open>await\<close>.  \<open>None\<close> is one of the three early returns.
  When \<^verbatim>\<open>parseInt\<close> gives \<^verbatim>\<open>NaN\<close> the test \<^verbatim>\<open>d.id === dealId\<close> is false for
  every deal, so \<^verbatim>\<open>findIndex\<close> gives \<open>- 1\<close> and the handler returns.
  \<^verbatim>\<open>STATUS_COLORS[newStatus] || originalDeal.color\<close> takes the right operand when the
  left one is the empty string.
\<close>

definition handleDragEnd_start ::
  "DropResult \<Rightarrow> 'z KanbanBoard \<Rightarrow> 'z drag_closure option \<times> 'z KanbanBoard" where
  "handleDragEnd_start result b =
    (case destination result of
       None \<Rightarrow> (None, b)
     | Some dst \<Rightarrow>
        if droppableId dst = droppableId (source result) \<and> index dst = index (source result)
        then (None, b)
        else
          (case parseInt10 (draggableId result) of
             None \<Rightarrow> (None, b)
           | Some dealId \<Rightarrow>
              (let newStatus = droppableId dst;
                   oldStatus = droppableId (source result);
                   dealIndex = findIndex (\<lambda>d. deal_id d = dealId) (deals b)
               in if dealIndex = - 1 then (None, b)
                  else
                    (let originalDeal = deals b ! nat dealIndex;
                         updatedDeals = (deals b)[nat dealIndex := originalDeal
                           \<lparr>status := newStatus,
                            color := (if STATUS_COLORS newStatus \<noteq> []
                                      then Some (STATUS_COLORS newStatus)
                                      else color originalDeal)\<rparr>]
                     in (Some \<lparr>c_deals = deals b, c_dealId = dealId, c_newStatus = newStatus,
                               c_oldStatus = oldStatus, c_dealIndex = dealIndex,
                               c_originalDeal = originalDeal\<rparr>,
                         b\<lparr>deals := updatedDeals, updating := Some dealId,
                           effects := effects b @ [ApiPatch dealId newStatus]\<rparr>)))))"

text \<open>
  Lines 155 to 167: what runs once the request has settled, on the state \<open>b\<close> the
  component has by then.  The rollback copies the \<open>deals\<close> of the closure, not of \<open>b\<close>,
  and writes at an index that is in range for every closure \<open>handleDragEnd_start\<close>
  returns.  \<^verbatim>\<open>onStatsRefresh\<close> is a state setter of \<^verbatim>\<open>Dashboard\<close> and does not throw,
  so the \<^verbatim>\<open>catch\<close> block runs exactly when the request is rejected.
\<close>

definition handleDragEnd_resume ::
  "KanbanBoardProps \<Rightarrow> 'z drag_closure \<Rightarrow> outcome \<Rightarrow> 'z KanbanBoard \<Rightarrow> 'z KanbanBoard" where
  "handleDragEnd_resume props c out b =
    (let b1 =
       (case out of
          Resolved \<Rightarrow>
            b\<lparr>effects := effects b @ (if onStatsRefresh props then [StatsRefresh] else [])\<rparr>
        | Rejected \<Rightarrow>
            (let rolledBackDeals = (c_deals c)[nat (c_dealIndex c) := c_originalDeal c]
             in b\<lparr>deals := rolledBackDeals,
                  error := Some (''Failed to move deal. Reverted to '' @
                                 DealStatus_str (c_oldStatus c) @ ''.''),
                  effects := effects b @
                    [ConsoleError ''Failed to update deal status:'', ClearErrorAfter 3000]\<rparr>))
     in b1\<lparr>updating := None\<rparr>)"

text \<open>The whole call when nothing else runs while the request is in flight.\<close>

definition handleDragEnd ::
  "KanbanBoardProps \<Rightarrow> DropResult \<Rightarrow> outcome \<Rightarrow> 'z KanbanBoard \<Rightarrow> 'z KanbanBoard" where
  "handleDragEnd props result out b =
    (case handleDragEnd_start result b of
       (None, b1) \<Rightarrow> b1
     | (Some c, b1) \<Rightarrow> handleDragEnd_resume props c out b1)"

text \<open>
  The entry of the store for an identifier, found the way the handler finds it
  (lines 138 to 141): \<^verbatim>\<open>deals[deals.findIndex((d) => d.id === dealId)]\<close>.
\<close>

definition findById :: "'z Deal_scheme list \<Rightarrow> int \<Rightarrow> 'z Deal_scheme option" where
  "findById ds i =
    (let k = findIndex (\<lambda>d. deal_id d = i) ds in if k = - 1 then None else Some (ds ! nat k))"

subsection \<open>\<^verbatim>\<open>dealsByStatus\<close>\<close>

text \<open>
  Lines 174 to 177: \<^verbatim>\<open>COLUMNS.reduce\<close> over an object that starts empty; each step
  stores under the column's identifier the deals \<^verbatim>\<open>filter\<close> keeps.
\<close>

definition dealsByStatus :: "'z Deal_scheme list \<Rightarrow> (DealStatus \<rightharpoonup> 'z Deal_scheme list)" where
  "dealsByStatus ds =
    foldl (\<lambda>acc col. acc(col_id col \<mapsto> filter (\<lambda>deal. status deal = col_id col) ds))
      Map.empty COLUMNS"

subsection \<open>Two drags, the second while the first request is in flight\<close>

text \<open>
  The handler has no lock: the board accepts a drag while \<open>updating\<close> is set.  This is
  the schedule in which a second call starts after the first has reached its \<^verbatim>\<open>await\<close>
  and the first request settles before the second.  The component has rendered in
  between, so the second call closes over the \<open>deals\<close> the first one has set.
\<close>

definition drag_during_drag ::
  "KanbanBoardProps \<Rightarrow> DropResult \<Rightarrow> outcome \<Rightarrow> DropResult \<Rightarrow> outcome \<Rightarrow>
   'z KanbanBoard \<Rightarrow> 'z KanbanBoard" where
  "drag_during_drag props r1 out1 r2 out2 b =
    (case handleDragEnd_start r1 b of
       (None, b1) \<Rightarrow> handleDragEnd props r2 out2 b1
     | (Some c1, b1) \<Rightarrow>
        (case handleDragEnd_start r2 b1 of
           (None, b2) \<Rightarrow> handleDragEnd_resume props c1 out1 b2
         | (Some c2, b2) \<Rightarrow>
            handleDragEnd_resume props c2 out2 (handleDragEnd_resume props c1 out1 b2)))"

text \<open>The same schedule, observed when only the first request has settled.\<close>

definition drag_during_drag_first_settled ::
  "KanbanBoardProps \<Rightarrow> DropResult \<Rightarrow> outcome \<Rightarrow> DropResult \<Rightarrow>
   'z KanbanBoard \<Rightarrow> 'z KanbanBoard" where
  "drag_during_drag_first_settled props r1 out1 r2 b =
    (case handleDragEnd_start r1 b of
       (None, b1) \<Rightarrow> snd (handleDragEnd_start r2 b1)
     | (Some c1, b1) \<Rightarrow> handleDragEnd_resume props c1 out1 (snd (handleDragEnd_start r2 b1)))"

subsection \<open>Example data\<close>

text \<open>
  The properties as \<^verbatim>\<open>Dashboard\<close> passes them (\<^verbatim>\<open>src/unnamed/part_003\<close>, lines 70
  to 74), three deals, a board that has loaded a list, and drop results.
\<close>

definition dashboard_props :: KanbanBoardProps where
  "dashboard_props = \<lparr>onDealsCountChange = True, onStatsRefresh = True\<rparr>"

definition deal1 :: Deal where
  "deal1 = \<lparr>deal_id = 1, title = ''Pallets'', deal_value = 1200, status = lead,
            color = Some ''#3b82f6'', company = Some ''Acme'', owner = None\<rparr>"

definition deal2 :: Deal where
  "deal2 = \<lparr>deal_id = 2, title = ''Crates'', deal_value = 300, status = lead,
            color = None, company = None, owner = Some ''Rin''\<rparr>"

definition deal3 :: Deal where
  "deal3 = \<lparr>deal_id = 3, title = ''Drums'', deal_value = 0, status = qualified,
            color = Some ''#6366f1'', company = None, owner = None\<rparr>"

definition loaded :: "Deal list \<Rightarrow> unit KanbanBoard" where
  "loaded ds =
    \<lparr>deals = ds, loading = False, error = None, updating = None,
     selectedDealId = None, effects = []\<rparr>"

definition drop_on :: "string \<Rightarrow> DealStatus \<Rightarrow> nat \<Rightarrow> DealStatus \<Rightarrow> nat \<Rightarrow> DropResult" where
  "drop_on cardId src_col src_index dst_col dst_index =
    \<lparr>destination = Some \<lparr>droppableId = dst_col, index = dst_index\<rparr>,
     source = \<lparr>droppableId = src_col, index = src_index\<rparr>,
     draggableId = cardId\<rparr>"

definition drop_outside :: "string \<Rightarrow> DealStatus \<Rightarrow> nat \<Rightarrow> DropResult" where
  "drop_outside cardId src_col src_index =
    \<lparr>destination = None,
     source = \<lparr>droppableId = src_col, index = src_index\<rparr>,
     draggableId = cardId\<rparr>"

section \<open>Facts about the library functions\<close>

lemma findIndex_range: "findIndex P xs = - 1 \<or> (0 \<le> findIndex P xs \<and> findIndex P xs < int (length xs))"
  by (induction xs) (auto simp: Let_def)

lemma findIndex_none_iff: "findIndex P xs = - 1 \<longleftrightarrow> (\<forall>x \<in> set xs. \<not> P x)"
proof (induction xs)
  case Nil
  show ?case by simp
next
  case (Cons a xs)
  have "findIndex P xs = - 1 \<or> 0 \<le> findIndex P xs" using findIndex_range[of P xs] by blast
  then have "findIndex P xs + 1 = - 1 \<longleftrightarrow> False" by auto
  with Cons show ?case by (auto simp: Let_def)
qed

lemma findIndex_hit: "findIndex P xs \<noteq> - 1 \<Longrightarrow> P (xs ! nat (findIndex P xs))"
proof (induction xs)
  case Nil
  then show ?case by simp
next
  case (Cons a xs)
  show ?case
  proof (cases "P a")
    case True
    then show ?thesis by simp
  next
    case False
    with Cons.prems have ne: "findIndex P xs \<noteq> - 1" by (auto simp: Let_def)
    then have nn: "0 \<le> findIndex P xs" using findIndex_range[of P xs] by blast
    then have "nat (findIndex P xs + 1) = Suc (nat (findIndex P xs))" by simp
    with False ne Cons.IH show ?thesis by (simp add: Let_def)
  qed
qed

lemma findIndex_first: "j < nat (findIndex P xs) \<Longrightarrow> \<not> P (xs ! j)"
proof (induction xs arbitrary: j)
  case Nil
  then show ?case by simp
next
  case (Cons a xs)
  show ?case
  proof (cases "P a")
    case True
    with Cons.prems show ?thesis by simp
  next
    case False
    show ?thesis
    proof (cases "findIndex P xs = - 1")
      case True
      with False Cons.prems show ?thesis by (simp add: Let_def)
    next
      case ne: False
      then have nn: "0 \<le> findIndex P xs" using findIndex_range[of P xs] by blast
      then have eq: "nat (findIndex P xs + 1) = Suc (nat (findIndex P xs))" by simp
      show ?thesis
      proof (cases j)
        case 0
        with False show ?thesis by simp
      next
        case (Suc j')
        with Cons.prems False ne eq have "j' < nat (findIndex P xs)" by (simp add: Let_def)
        with Cons.IH Suc show ?thesis by simp
      qed
    qed
  qed
qed

lemma STATUS_COLORS_nonempty: "STATUS_COLORS s \<noteq> []"
  by (cases s) simp_all

lemma digit_cases: "d < 10 \<Longrightarrow> d = 0 \<or> d = 1 \<or> d = 2 \<or> d = 3 \<or> d = 4 \<or> d = 5 \<or> d = 6 \<or> d = 7 \<or> d = 8 \<or> d = (9::nat)"
  by arith

lemma digitChar_props:
  assumes "d < 10"
  shows "isDigit (digitChar d)" and "digitVal (digitChar d) = d"
    and "\<not> isWhiteSpace (digitChar d)" and "digitChar d \<noteq> CHR ''-''" and "digitChar d \<noteq> CHR ''+''"
  using digit_cases[OF assms]
  by (auto simp: digitChar_def isDigit_def digitVal_def isWhiteSpace_def)

lemma digits_nonempty: "digits n \<noteq> []"
  by (subst digits.simps) simp

lemma digits_all: "\<forall>c \<in> set (digits n). isDigit c"
  by (induction n rule: digits.induct) (subst digits.simps, auto simp: digitChar_props)

lemma digits_val: "foldl (\<lambda>a c. 10 * a + digitVal c) 0 (digits n) = n"
  by (induction n rule: digits.induct) (subst digits.simps, auto simp: digitChar_props)

lemma digits_hd: "\<exists>d cs. d < 10 \<and> digits n = digitChar d # cs"
proof (induction n rule: digits.induct)
  case (1 n)
  show ?case
  proof (cases "n < 10")
    case True
    then show ?thesis by (subst digits.simps) auto
  next
    case False
    with 1 obtain d cs where "d < 10" "digits (n div 10) = digitChar d # cs" by blast
    with False show ?thesis by (subst digits.simps) auto
  qed
qed

lemma takeWhile_digits: "takeWhile isDigit (digits n) = digits n"
  using digits_all by simp

lemma parseInt10_digits: "parseInt10 (digits n) = Some (int n)"
proof -
  obtain d cs where d: "d < 10" and eq: "digits n = digitChar d # cs" using digits_hd by blast
  have dw: "dropWhile isWhiteSpace (digits n) = digits n" using d eq by (simp add: digitChar_props)
  have neg: "(case digits n of [] \<Rightarrow> False | c # _ \<Rightarrow> c = CHR ''-'') = False"
    using d by (simp add: eq digitChar_props)
  have u: "(case digits n of [] \<Rightarrow> [] | c # cs \<Rightarrow> if c = CHR ''+'' \<or> c = CHR ''-'' then cs else digits n) = digits n"
    using d by (simp add: eq digitChar_props)
  show ?thesis
    unfolding parseInt10_def dw Let_def neg u takeWhile_digits
    by (simp add: digits_nonempty digits_val)
qed

lemma parseInt10_String_num: "parseInt10 (String_num n) = Some n"
proof (cases "n < 0")
  case False
  then show ?thesis using parseInt10_digits[of "nat n"] by (simp add: String_num_def)
next
  case True
  have ws: "\<not> isWhiteSpace CHR ''-''" by (simp add: isWhiteSpace_def)
  show ?thesis using True ws
    by (simp add: String_num_def parseInt10_def Let_def takeWhile_digits digits_nonempty digits_val)
qed

section \<open>Facts about the handlers\<close>

lemma findIndex_deal_id:
  assumes "d \<in> set ds"
  shows "findIndex (\<lambda>x. deal_id x = deal_id d) ds \<noteq> - 1"
  using assms by (auto simp: findIndex_none_iff)

lemma findIndex_bounds:
  assumes "findIndex P xs \<noteq> - 1"
  shows "nat (findIndex P xs) < length xs" and "0 \<le> findIndex P xs"
  using assms findIndex_range[of P xs] by auto

lemma findIndex_update_same:
  assumes ne: "findIndex P xs \<noteq> - 1" and "P y"
  shows "findIndex P (xs[nat (findIndex P xs) := y]) = findIndex P xs"
  using ne
proof (induction xs)
  case Nil
  then show ?case by simp
next
  case (Cons a xs)
  show ?case
  proof (cases "P a")
    case True
    with assms(2) show ?thesis by simp
  next
    case False
    with Cons.prems have ne': "findIndex P xs \<noteq> - 1" by (auto simp: Let_def)
    then have eq: "nat (findIndex P xs + 1) = Suc (nat (findIndex P xs))"
      using findIndex_bounds(2)[OF ne'] by simp
    from False ne' Cons.IH[OF ne'] show ?thesis by (simp add: Let_def eq)
  qed
qed

text \<open>The state and closure of a call that gets as far as the request.\<close>

lemma handleDragEnd_start_issued:
  assumes "destination r = Some dst"
    and "\<not> (droppableId dst = droppableId (source r) \<and> index dst = index (source r))"
    and "parseInt10 (draggableId r) = Some i"
    and "findIndex (\<lambda>d. deal_id d = i) (deals b) \<noteq> - 1"
  shows "handleDragEnd_start r b =
    (Some \<lparr>c_deals = deals b, c_dealId = i, c_newStatus = droppableId dst,
           c_oldStatus = droppableId (source r),
           c_dealIndex = findIndex (\<lambda>d. deal_id d = i) (deals b),
           c_originalDeal = deals b ! nat (findIndex (\<lambda>d. deal_id d = i) (deals b))\<rparr>,
     b\<lparr>deals := (deals b)[nat (findIndex (\<lambda>d. deal_id d = i) (deals b)) :=
          (deals b ! nat (findIndex (\<lambda>d. deal_id d = i) (deals b)))
            \<lparr>status := droppableId dst, color := Some (STATUS_COLORS (droppableId dst))\<rparr>],
       updating := Some i,
       effects := effects b @ [ApiPatch i (droppableId dst)]\<rparr>)"
  using assms by (simp add: handleDragEnd_start_def Let_def STATUS_COLORS_nonempty)

lemma handleDragEnd_start_closure:
  assumes "handleDragEnd_start r b = (Some c, b1)"
  shows "c_deals c = deals b"
    and "c_dealIndex c \<noteq> - 1"
    and "c_dealIndex c = findIndex (\<lambda>d. deal_id d = c_dealId c) (deals b)"
    and "c_originalDeal c = deals b ! nat (c_dealIndex c)"
    and "deals b1 = (deals b)[nat (c_dealIndex c) :=
           (c_originalDeal c)\<lparr>status := c_newStatus c, color := Some (STATUS_COLORS (c_newStatus c))\<rparr>]"
    and "effects b1 = effects b @ [ApiPatch (c_dealId c) (c_newStatus c)]"
    and "parseInt10 (draggableId r) = Some (c_dealId c)"
  using assms
  by (auto simp: handleDragEnd_start_def Let_def STATUS_COLORS_nonempty
      split: option.splits if_splits)

lemma handleDragEnd_start_in_range:
  assumes "handleDragEnd_start r b = (Some c, b1)"
  shows "0 \<le> c_dealIndex c \<and> nat (c_dealIndex c) < length (c_deals c)"
  using handleDragEnd_start_closure(1,2,3)[OF assms]
    findIndex_bounds[of "\<lambda>d. deal_id d = c_dealId c" "deals b"]
  by simp

lemma handleDragEnd_start_none:
  assumes "handleDragEnd_start r b = (None, b1)"
  shows "b1 = b"
  using assms
  by (auto simp: handleDragEnd_start_def Let_def split: option.splits if_splits)

lemma resume_Rejected_deals:
  "deals (handleDragEnd_resume props c Rejected b') = (c_deals c)[nat (c_dealIndex c) := c_originalDeal c]"
  by (simp add: handleDragEnd_resume_def Let_def)

lemma resume_Resolved_deals:
  "deals (handleDragEnd_resume props c Resolved b') = deals b'"
  by (simp add: handleDragEnd_resume_def Let_def)

lemma resume_Rejected_snapshot:
  assumes "handleDragEnd_start r b = (Some c, b1)"
  shows "deals (handleDragEnd_resume props c Rejected b') = deals b"
  using handleDragEnd_start_closure(1,4)[OF assms]
  by (simp add: resume_Rejected_deals)

lemma findById_present:
  assumes "d \<in> set ds"
  shows "findById ds (deal_id d) = Some (ds ! nat (findIndex (\<lambda>x. deal_id x = deal_id d) ds))"
  using findIndex_deal_id[OF assms] by (simp add: findById_def Let_def)

lemma findById_updated:
  assumes ne: "findIndex (\<lambda>x. deal_id x = i) ds \<noteq> - 1" and id: "deal_id y = i"
  shows "findById (ds[nat (findIndex (\<lambda>x. deal_id x = i) ds) := y]) i = Some y"
proof -
  have "findIndex (\<lambda>x. deal_id x = i) (ds[nat (findIndex (\<lambda>x. deal_id x = i) ds) := y])
      = findIndex (\<lambda>x. deal_id x = i) ds"
    using findIndex_update_same[of "\<lambda>x. deal_id x = i" ds y] ne id by simp
  with ne findIndex_bounds(1)[OF ne] show ?thesis by (simp add: findById_def Let_def)
qed

lemma handleDragEnd_issued:
  assumes "d \<in> set (deals b)"
    and "draggableId r = String_num (deal_id d)"
    and "destination r = Some dst"
    and "\<not> (droppableId dst = droppableId (source r) \<and> index dst = index (source r))"
  shows "handleDragEnd props r out b =
    handleDragEnd_resume props
      \<lparr>c_deals = deals b, c_dealId = deal_id d, c_newStatus = droppableId dst,
       c_oldStatus = droppableId (source r),
       c_dealIndex = findIndex (\<lambda>x. deal_id x = deal_id d) (deals b),
       c_originalDeal = deals b ! nat (findIndex (\<lambda>x. deal_id x = deal_id d) (deals b))\<rparr>
      out
      (b\<lparr>deals := (deals b)[nat (findIndex (\<lambda>x. deal_id x = deal_id d) (deals b)) :=
          (deals b ! nat (findIndex (\<lambda>x. deal_id x = deal_id d) (deals b)))
            \<lparr>status := droppableId dst, color := Some (STATUS_COLORS (droppableId dst))\<rparr>],
        updating := Some (deal_id d),
        effects := effects b @ [ApiPatch (deal_id d) (droppableId dst)]\<rparr>)"
proof -
  have p: "parseInt10 (draggableId r) = Some (deal_id d)"
    using assms(2) by (simp add: parseInt10_String_num)
  show ?thesis
    unfolding handleDragEnd_def
    by (simp add: handleDragEnd_start_issued[OF assms(3) assms(4) p findIndex_deal_id[OF assms(1)]])
qed

lemma findById_closure:
  assumes "handleDragEnd_start r b = (Some c, b1)"
  shows "findById (deals b) (c_dealId c) = Some (c_originalDeal c)"
    and "findById (deals b1) (c_dealId c) =
      Some ((c_originalDeal c)\<lparr>status := c_newStatus c, color := Some (STATUS_COLORS (c_newStatus c))\<rparr>)"
proof -
  note cl = handleDragEnd_start_closure[OF assms]
  let ?k = "findIndex (\<lambda>x. deal_id x = c_dealId c) (deals b)"
  have ne: "?k \<noteq> - 1" using cl(2,3) by simp
  show "findById (deals b) (c_dealId c) = Some (c_originalDeal c)"
    using ne cl(3,4) by (simp add: findById_def Let_def)
  have hit: "deal_id (c_originalDeal c) = c_dealId c"
    using findIndex_hit[of "\<lambda>x. deal_id x = c_dealId c" "deals b"] ne cl(3,4) by simp
  show "findById (deals b1) (c_dealId c) =
      Some ((c_originalDeal c)\<lparr>status := c_newStatus c, color := Some (STATUS_COLORS (c_newStatus c))\<rparr>)"
    using findById_updated[OF ne, of "(c_originalDeal c)\<lparr>status := c_newStatus c, color := Some (STATUS_COLORS (c_newStatus c))\<rparr>"]
      hit cl(3,5) by simp
qed

text \<open>
  What the store is when rollbacks interleave: each rollback installs the store its own
  call started from.
\<close>

lemma interleaved_rollbacks:
  assumes "handleDragEnd_start r1 b = (Some c1, b1)"
    and "handleDragEnd_start r2 b1 = (Some c2, b2)"
  shows "deals (drag_during_drag_first_settled props r1 Rejected r2 b) = deals b \<and>
    findById (deals (drag_during_drag_first_settled props r1 Rejected r2 b)) (c_dealId c1)
      = findById (deals b) (c_dealId c1) \<and>
    deals (drag_during_drag props r1 Rejected r2 Resolved b) = deals b \<and>
    deals (drag_during_drag props r1 Rejected r2 Rejected b) = deals b1"
  using assms resume_Rejected_snapshot[OF assms(1), of props b2]
    resume_Rejected_snapshot[OF assms(2), of props "handleDragEnd_resume props c1 Rejected b2"]
  by (simp add: drag_during_drag_def drag_during_drag_first_settled_def resume_Resolved_deals)

section \<open>Facts about the columns\<close>

lemma dealsByStatus_bucket:
  "dealsByStatus ds k = Some (filter (\<lambda>deal. status deal = k) ds)"
  by (cases k) (simp_all add: dealsByStatus_def COLUMNS_def)

lemma COLUMNS_ids:
  "map col_id COLUMNS =
    [lead, contacted, qualified, quotes_sent, trial_order, active_customer,
     retained_growing, lost_customer]"
  by (simp add: COLUMNS_def)

lemma COLUMNS_cover: "k \<in> set (map col_id COLUMNS)"
  unfolding COLUMNS_ids by (cases k) simp_all

lemma mset_buckets:
  "mset (concat (map (\<lambda>k. filter (\<lambda>deal. status deal = k) ds)
     [lead, contacted, qualified, quotes_sent, trial_order, active_customer,
      retained_growing, lost_customer])) = mset ds"
proof (induction ds)
  case Nil
  show ?case by simp
next
  case (Cons d ds)
  then show ?case by (cases "status d") simp_all
qed

section \<open>The claims\<close>

text \<open>The definitions a concrete call is evaluated with.\<close>

lemmas eval_defs =
  handleDragEnd_def handleDragEnd_start_def handleDragEnd_resume_def
  parseInt10_def isWhiteSpace_def isDigit_def digitVal_def Let_def
  loaded_def drop_on_def drop_outside_def dashboard_props_def deal1_def deal2_def deal3_def
  initial_board_def

lemmas eval_defs2 = eval_defs drag_during_drag_def drag_during_drag_first_settled_def findById_def

subsection \<open>Drops that change nothing\<close>

text \<open>
  Claim C10.  A drag-end event whose destination is null (the card was dropped outside
  every column) is a complete no-op on every board: the state, and with it the store, is
  unchanged, and no effect is added, so no request is issued and no callback is called.
  The call does not even reach the request.
\<close>

theorem drop_outside_is_noop:
  assumes "destination r = None"
  shows "handleDragEnd props r out b = b \<and> handleDragEnd_start r b = (None, b)"
  using assms by (simp add: handleDragEnd_def handleDragEnd_start_def)

theorem drop_outside_is_noop_witness:
  "destination (drop_outside ''1'' lead 0) = None \<and>
   handleDragEnd dashboard_props (drop_outside ''1'' lead 0) Resolved (loaded [deal1]) = loaded [deal1] \<and>
   handleDragEnd_start (drop_outside ''1'' lead 0) (loaded [deal1]) = (None, loaded [deal1])"
proof -
  have h: "destination (drop_outside ''1'' lead 0) = None" by (simp add: drop_outside_def)
  show ?thesis
    using h drop_outside_is_noop [OF h, of dashboard_props Resolved "loaded [deal1]"] by simp
qed

text \<open>
  Claim C7.  When no deal of the store has the identifier the dragged card stands for
  (in particular when the store is empty, or the identifier does not parse), the handler
  returns before it touches anything, for every destination: the whole state is
  unchanged, no request is issued, no callback is called, and the result is an ordinary
  state.
\<close>

theorem absent_deal_is_noop:
  assumes "\<forall>d \<in> set (deals b). parseInt10 (draggableId r) \<noteq> Some (deal_id d)"
  shows "handleDragEnd props r out b = b \<and> handleDragEnd_start r b = (None, b)"
proof -
  have "handleDragEnd_start r b = (None, b)"
  proof (cases "parseInt10 (draggableId r)")
    case None
    then show ?thesis by (simp add: handleDragEnd_start_def split: option.splits)
  next
    case (Some i)
    with assms have "findIndex (\<lambda>d. deal_id d = i) (deals b) = - 1"
      by (auto simp: findIndex_none_iff)
    with Some show ?thesis by (simp add: handleDragEnd_start_def Let_def split: option.splits)
  qed
  then show ?thesis by (simp add: handleDragEnd_def)
qed

theorem absent_deal_is_noop_witness:
  "list_all (\<lambda>d. parseInt10 (draggableId (drop_on ''99'' qualified 0 lead 0)) \<noteq> Some (deal_id d))
     (deals (loaded [deal1, deal3])) \<and>
   handleDragEnd dashboard_props (drop_on ''99'' qualified 0 lead 0) Resolved (loaded []) = loaded [] \<and>
   handleDragEnd_start (drop_on ''99'' qualified 0 lead 0) (loaded []) = (None, loaded []) \<and>
   handleDragEnd dashboard_props (drop_on ''99'' qualified 0 lead 0) Rejected (loaded [deal1, deal3])
     = loaded [deal1, deal3]"
proof -
  have h0: "\<forall>d \<in> set (deals (loaded [])).
      parseInt10 (draggableId (drop_on ''99'' qualified 0 lead 0)) \<noteq> Some (deal_id d)"
    by (simp add: loaded_def)
  have h1: "\<forall>d \<in> set (deals (loaded [deal1, deal3])).
      parseInt10 (draggableId (drop_on ''99'' qualified 0 lead 0)) \<noteq> Some (deal_id d)"
    by (simp add: eval_defs)
  show ?thesis
    using h1 absent_deal_is_noop [OF h0, of dashboard_props Resolved]
      absent_deal_is_noop [OF h1, of dashboard_props Rejected]
    by (simp add: list_all_iff)
qed

text \<open>
  Claim C1, as amended.  A drop whose destination column and destination index are both
  those of the source is a complete no-op: the state is unchanged, no request is issued
  and the statistics callback is not called.
\<close>

theorem same_position_is_noop:
  assumes "destination r = Some dst"
    and "droppableId dst = droppableId (source r)"
    and "index dst = index (source r)"
  shows "handleDragEnd props r out b = b \<and> handleDragEnd_start r b = (None, b)"
  using assms by (simp add: handleDragEnd_def handleDragEnd_start_def)

theorem same_position_is_noop_witness:
  "destination (drop_on ''1'' lead 0 lead 0) = Some \<lparr>droppableId = lead, index = 0\<rparr> \<and>
   droppableId \<lparr>droppableId = lead, index = 0\<rparr> = droppableId (source (drop_on ''1'' lead 0 lead 0)) \<and>
   index \<lparr>droppableId = lead, index = 0\<rparr> = index (source (drop_on ''1'' lead 0 lead 0)) \<and>
   handleDragEnd dashboard_props (drop_on ''1'' lead 0 lead 0) Resolved (loaded [deal1]) = loaded [deal1] \<and>
   handleDragEnd_start (drop_on ''1'' lead 0 lead 0) (loaded [deal1]) = (None, loaded [deal1])"
proof -
  have h1: "destination (drop_on ''1'' lead 0 lead 0) = Some \<lparr>droppableId = lead, index = 0\<rparr>"
    and h2: "droppableId \<lparr>droppableId = lead, index = 0\<rparr> = droppableId (source (drop_on ''1'' lead 0 lead 0))"
    and h3: "index \<lparr>droppableId = lead, index = 0\<rparr> = index (source (drop_on ''1'' lead 0 lead 0))"
    by (simp_all add: drop_on_def)
  show ?thesis
    using h1 h2 h3 same_position_is_noop [OF h1 h2 h3, of dashboard_props Resolved "loaded [deal1]"]
    by simp
qed

text \<open>
  Claim C1 as stated fails for a drop into the same column at another index.  The deal
  with identifier 2 is in the store with status \<open>lead\<close>, its card is dropped in the
  \<open>lead\<close> column at index 1 instead of 0, and the request is issued, the statistics
  callback is called, and the store differs (the deal now has the colour of its column).
\<close>

theorem same_column_other_index_counterexample:
  "deal2 \<in> set (deals (loaded [deal2, deal1])) \<and>
   status deal2 = lead \<and>
   draggableId (drop_on ''2'' lead 0 lead 1) = String_num (deal_id deal2) \<and>
   destination (drop_on ''2'' lead 0 lead 1) = Some \<lparr>droppableId = lead, index = 1\<rparr> \<and>
   effects (handleDragEnd dashboard_props (drop_on ''2'' lead 0 lead 1) Resolved (loaded [deal2, deal1]))
     = [ApiPatch 2 lead, StatsRefresh] \<and>
   deals (handleDragEnd dashboard_props (drop_on ''2'' lead 0 lead 1) Resolved (loaded [deal2, deal1]))
     \<noteq> deals (loaded [deal2, deal1])"
  by (simp add: eval_defs String_num_def digits.simps digitChar_def)

subsection \<open>A transition whose request is issued\<close>

text \<open>
  In the three theorems that follow, the card of a deal \<open>d\<close> of the store is dragged
  (its \<^verbatim>\<open>draggableId\<close> is \<^verbatim>\<open>String(deal.id)\<close>, \<^verbatim>\<open>KanbanCard.tsx\<close> line 19) and
  dropped on a column at a position other than the one it came from, so that the handler
  reaches the request; nothing else runs until the request has settled.
\<close>

text \<open>
  Claim C2.  If the request of such a move fails, then once the failure has been handled
  the store is the store from before the call; the entry found for the identifier is
  therefore the one from before, with its status and its colour.  The effects of the
  call are the request, a console message and the timer of the error notice: the
  statistics callback is not called.
\<close>

theorem rollback_restores_store:
  assumes "d \<in> set (deals b)"
    and "draggableId r = String_num (deal_id d)"
    and "destination r = Some dst"
    and "\<not> (droppableId dst = droppableId (source r) \<and> index dst = index (source r))"
  shows "deals (handleDragEnd props r Rejected b) = deals b \<and>
    findById (deals b) (deal_id d) \<noteq> None \<and>
    findById (deals (handleDragEnd props r Rejected b)) (deal_id d) = findById (deals b) (deal_id d) \<and>
    effects (handleDragEnd props r Rejected b) =
      effects b @ [ApiPatch (deal_id d) (droppableId dst),
                   ConsoleError ''Failed to update deal status:'', ClearErrorAfter 3000] \<and>
    count_list (effects (handleDragEnd props r Rejected b)) StatsRefresh =
      count_list (effects b) StatsRefresh"
proof -
  have st: "deals (handleDragEnd props r Rejected b) = deals b"
    unfolding handleDragEnd_issued[OF assms] by (simp add: resume_Rejected_deals)
  have ef: "effects (handleDragEnd props r Rejected b) =
      effects b @ [ApiPatch (deal_id d) (droppableId dst),
                   ConsoleError ''Failed to update deal status:'', ClearErrorAfter 3000]"
    unfolding handleDragEnd_issued[OF assms] by (simp add: handleDragEnd_resume_def)
  have pr: "findById (deals b) (deal_id d) \<noteq> None"
    using findById_present[OF assms(1)] by simp
  from st ef pr show ?thesis by simp
qed

theorem rollback_restores_store_witness:
  "deals (handleDragEnd dashboard_props (drop_on ''1'' lead 0 qualified 0) Rejected (loaded [deal1]))
     = [deal1] \<and>
   findById (deals (handleDragEnd dashboard_props (drop_on ''1'' lead 0 qualified 0) Rejected (loaded [deal1]))) 1
     = Some deal1 \<and>
   status deal1 = lead \<and> color deal1 = Some ''#3b82f6'' \<and>
   effects (handleDragEnd dashboard_props (drop_on ''1'' lead 0 qualified 0) Rejected (loaded [deal1]))
     = [ApiPatch 1 qualified, ConsoleError ''Failed to update deal status:'', ClearErrorAfter 3000]"
proof -
  have h1: "deal1 \<in> set (deals (loaded [deal1]))" by (simp add: loaded_def)
  have h2: "draggableId (drop_on ''1'' lead 0 qualified 0) = String_num (deal_id deal1)"
    by (simp add: drop_on_def deal1_def String_num_def digits.simps digitChar_def)
  have h3: "destination (drop_on ''1'' lead 0 qualified 0) = Some \<lparr>droppableId = qualified, index = 0\<rparr>"
    by (simp add: drop_on_def)
  have h4: "\<not> (droppableId \<lparr>droppableId = qualified, index = 0\<rparr> = droppableId (source (drop_on ''1'' lead 0 qualified 0))
              \<and> index \<lparr>droppableId = qualified, index = 0\<rparr> = index (source (drop_on ''1'' lead 0 qualified 0)))"
    by (simp add: drop_on_def)
  have f: "findById [deal1] 1 = Some deal1" by (simp add: findById_def deal1_def)
  show ?thesis
    using rollback_restores_store [OF h1 h2 h3 h4, of dashboard_props] f
    by (simp add: loaded_def deal1_def)
qed

text \<open>
  Claim C3.  If the request of such a move succeeds, the entry found for the identifier
  is the previous entry with the destination as status and the colour
  \<open>STATUS_COLORS\<close> gives the destination (for \<open>qualified\<close> that is \<open>#6366f1\<close>), and,
  the statistics callback having been passed to the board, it is called exactly once.
\<close>

theorem commit_keeps_destination:
  assumes "d \<in> set (deals b)"
    and "draggableId r = String_num (deal_id d)"
    and "destination r = Some dst"
    and "\<not> (droppableId dst = droppableId (source r) \<and> index dst = index (source r))"
    and "onStatsRefresh props"
  shows "findById (deals b) (deal_id d) \<noteq> None \<and>
    findById (deals (handleDragEnd props r Resolved b)) (deal_id d) =
      map_option (\<lambda>e. e\<lparr>status := droppableId dst, color := Some (STATUS_COLORS (droppableId dst))\<rparr>)
        (findById (deals b) (deal_id d)) \<and>
    effects (handleDragEnd props r Resolved b) =
      effects b @ [ApiPatch (deal_id d) (droppableId dst), StatsRefresh] \<and>
    count_list (effects (handleDragEnd props r Resolved b)) StatsRefresh =
      count_list (effects b) StatsRefresh + 1 \<and>
    STATUS_COLORS qualified = ''#6366f1''"
proof -
  let ?k = "findIndex (\<lambda>x. deal_id x = deal_id d) (deals b)"
  let ?new = "(deals b ! nat ?k)\<lparr>status := droppableId dst, color := Some (STATUS_COLORS (droppableId dst))\<rparr>"
  have ne: "?k \<noteq> - 1" by (rule findIndex_deal_id[OF assms(1)])
  have hit: "deal_id (deals b ! nat ?k) = deal_id d"
    using findIndex_hit[of "\<lambda>x. deal_id x = deal_id d" "deals b"] ne by simp
  have st: "deals (handleDragEnd props r Resolved b) = (deals b)[nat ?k := ?new]"
    unfolding handleDragEnd_issued[OF assms(1-4)] by (simp add: resume_Resolved_deals)
  have "findById ((deals b)[nat ?k := ?new]) (deal_id d) = Some ?new"
    using findById_updated[OF ne, of ?new] hit by simp
  with st have fb: "findById (deals (handleDragEnd props r Resolved b)) (deal_id d) =
      map_option (\<lambda>e. e\<lparr>status := droppableId dst, color := Some (STATUS_COLORS (droppableId dst))\<rparr>)
        (findById (deals b) (deal_id d))"
    by (simp add: findById_present[OF assms(1)])
  have ef: "effects (handleDragEnd props r Resolved b) =
      effects b @ [ApiPatch (deal_id d) (droppableId dst), StatsRefresh]"
    unfolding handleDragEnd_issued[OF assms(1-4)] using assms(5)
    by (simp add: handleDragEnd_resume_def)
  have pr: "findById (deals b) (deal_id d) \<noteq> None"
    using findById_present[OF assms(1)] by simp
  from fb ef pr show ?thesis by simp
qed

theorem commit_keeps_destination_witness:
  "findById (deals (handleDragEnd dashboard_props (drop_on ''1'' lead 0 qualified 0) Resolved (loaded [deal1]))) 1
     = Some (deal1\<lparr>status := qualified, color := Some ''#6366f1''\<rparr>) \<and>
   effects (handleDragEnd dashboard_props (drop_on ''1'' lead 0 qualified 0) Resolved (loaded [deal1]))
     = [ApiPatch 1 qualified, StatsRefresh] \<and>
   count_list (effects (handleDragEnd dashboard_props (drop_on ''1'' lead 0 qualified 0) Resolved (loaded [deal1])))
     StatsRefresh = 1"
proof -
  have h1: "deal1 \<in> set (deals (loaded [deal1]))" by (simp add: loaded_def)
  have h2: "draggableId (drop_on ''1'' lead 0 qualified 0) = String_num (deal_id deal1)"
    by (simp add: drop_on_def deal1_def String_num_def digits.simps digitChar_def)
  have h3: "destination (drop_on ''1'' lead 0 qualified 0) = Some \<lparr>droppableId = qualified, index = 0\<rparr>"
    by (simp add: drop_on_def)
  have h4: "\<not> (droppableId \<lparr>droppableId = qualified, index = 0\<rparr> = droppableId (source (drop_on ''1'' lead 0 qualified 0))
              \<and> index \<lparr>droppableId = qualified, index = 0\<rparr> = index (source (drop_on ''1'' lead 0 qualified 0)))"
    by (simp add: drop_on_def)
  have h5: "onStatsRefresh dashboard_props" by (simp add: dashboard_props_def)
  have f: "findById [deal1] 1 = Some deal1" by (simp add: findById_def deal1_def)
  show ?thesis
    using commit_keeps_destination [OF h1 h2 h3 h4 h5] f
    by (simp add: loaded_def deal1_def)
qed

text \<open>
  Claim C5.  One call of the handler, whatever its outcome, leaves every entry of the
  store whose identifier is not the one of the dragged card as it was, in all its
  fields and at its position, and keeps the length of the store.  The same holds while
  the request is in flight.
\<close>

theorem other_deals_untouched:
  assumes "j < length (deals b)"
    and "parseInt10 (draggableId r) \<noteq> Some (deal_id (deals b ! j))"
  shows "length (deals (handleDragEnd props r out b)) = length (deals b) \<and>
    deals (handleDragEnd props r out b) ! j = deals b ! j \<and>
    length (deals (snd (handleDragEnd_start r b))) = length (deals b) \<and>
    deals (snd (handleDragEnd_start r b)) ! j = deals b ! j"
proof (cases "handleDragEnd_start r b")
  case (Pair co b1)
  show ?thesis
  proof (cases co)
    case None
    with Pair have "b1 = b" using handleDragEnd_start_none by blast
    with Pair None show ?thesis by (simp add: handleDragEnd_def)
  next
    case (Some c)
    with Pair have s: "handleDragEnd_start r b = (Some c, b1)" by simp
    note cl = handleDragEnd_start_closure[OF s]
    have "deal_id (deals b ! nat (c_dealIndex c)) = c_dealId c"
      using findIndex_hit[of "\<lambda>x. deal_id x = c_dealId c" "deals b"] cl(2,3) by simp
    with assms(2) cl(7) have neq: "nat (c_dealIndex c) \<noteq> j" by auto
    have inflight: "length (deals b1) = length (deals b) \<and> deals b1 ! j = deals b ! j"
      using cl(5) neq by simp
    have after: "deals (handleDragEnd props r out b) = (case out of Resolved \<Rightarrow> deals b1 | Rejected \<Rightarrow> deals b)"
      using s resume_Rejected_snapshot[OF s, of props b1]
      by (simp add: handleDragEnd_def resume_Resolved_deals split: outcome.splits)
    from inflight after s show ?thesis by (simp split: outcome.splits)
  qed
qed

theorem other_deals_untouched_witness:
  "deals (handleDragEnd dashboard_props (drop_on ''1'' lead 0 contacted 0) Resolved (loaded [deal1, deal2, deal3])) ! 1 = deal2 \<and>
   deals (handleDragEnd dashboard_props (drop_on ''1'' lead 0 contacted 0) Rejected (loaded [deal1, deal2, deal3])) ! 2 = deal3 \<and>
   deals (handleDragEnd dashboard_props (drop_on ''1'' lead 0 contacted 0) Resolved (loaded [deal1, deal2, deal3])) ! 0 \<noteq> deal1"
proof -
  have l1: "1 < length (deals (loaded [deal1, deal2, deal3]))"
    and l2: "2 < length (deals (loaded [deal1, deal2, deal3]))" by (simp_all add: loaded_def)
  have p1: "parseInt10 (draggableId (drop_on ''1'' lead 0 contacted 0)) \<noteq> Some (deal_id (deals (loaded [deal1, deal2, deal3]) ! 1))"
    and p2: "parseInt10 (draggableId (drop_on ''1'' lead 0 contacted 0)) \<noteq> Some (deal_id (deals (loaded [deal1, deal2, deal3]) ! 2))"
    by (simp_all add: eval_defs)
  have m: "deals (handleDragEnd dashboard_props (drop_on ''1'' lead 0 contacted 0) Resolved (loaded [deal1, deal2, deal3])) ! 0 \<noteq> deal1"
    by (simp add: eval_defs)
  show ?thesis
    using other_deals_untouched [OF l1 p1, of dashboard_props Resolved]
      other_deals_untouched [OF l2 p2, of dashboard_props Rejected] m
    by (simp add: loaded_def)
qed

text \<open>
  Claim C6, as amended.  When the request of such a move fails, the error the board
  shows is tagged with the attempted source stage: it is
  \<open>Failed to move deal. Reverted to\<close> followed by the source column of the drag and a
  full stop.  A timer of 3000 ms is set to clear it.
\<close>

theorem failure_notice_names_source:
  assumes "d \<in> set (deals b)"
    and "draggableId r = String_num (deal_id d)"
    and "destination r = Some dst"
    and "\<not> (droppableId dst = droppableId (source r) \<and> index dst = index (source r))"
  shows "error (handleDragEnd props r Rejected b) =
      Some (''Failed to move deal. Reverted to '' @ DealStatus_str (droppableId (source r)) @ ''.'') \<and>
    ClearErrorAfter 3000 \<in> set (effects (handleDragEnd props r Rejected b))"
  unfolding handleDragEnd_issued[OF assms] by (simp add: handleDragEnd_resume_def)

theorem failure_notice_names_source_witness:
  "error (handleDragEnd dashboard_props (drop_on ''3'' qualified 0 trial_order 0) Rejected (loaded [deal1, deal3]))
     = Some ''Failed to move deal. Reverted to qualified.''"
proof -
  have h1: "deal3 \<in> set (deals (loaded [deal1, deal3]))" by (simp add: loaded_def)
  have h2: "draggableId (drop_on ''3'' qualified 0 trial_order 0) = String_num (deal_id deal3)"
    by (simp add: drop_on_def deal3_def String_num_def digits.simps digitChar_def)
  have h3: "destination (drop_on ''3'' qualified 0 trial_order 0) = Some \<lparr>droppableId = trial_order, index = 0\<rparr>"
    by (simp add: drop_on_def)
  have h4: "\<not> (droppableId \<lparr>droppableId = trial_order, index = 0\<rparr> = droppableId (source (drop_on ''3'' qualified 0 trial_order 0))
              \<and> index \<lparr>droppableId = trial_order, index = 0\<rparr> = index (source (drop_on ''3'' qualified 0 trial_order 0)))"
    by (simp add: drop_on_def)
  show ?thesis
    using failure_notice_names_source [OF h1 h2 h3 h4, of dashboard_props]
    by (simp add: drop_on_def)
qed

text \<open>
  Claim C6 as stated fails: when the move of deal 1 from \<open>lead\<close> to \<open>qualified\<close> fails,
  the error is \<open>Failed to move deal. Reverted to lead.\<close>; the destination does not
  occur in it, and a failed move to \<open>contacted\<close> gives the very same error.
\<close>

theorem failure_notice_destination_counterexample:
  "error (handleDragEnd dashboard_props (drop_on ''1'' lead 0 qualified 0) Rejected (loaded [deal1]))
     = Some ''Failed to move deal. Reverted to lead.'' \<and>
   \<not> sublist (DealStatus_str qualified) ''Failed to move deal. Reverted to lead.'' \<and>
   error (handleDragEnd dashboard_props (drop_on ''1'' lead 0 qualified 0) Rejected (loaded [deal1]))
     = error (handleDragEnd dashboard_props (drop_on ''1'' lead 0 contacted 0) Rejected (loaded [deal1]))"
  by (simp add: eval_defs sublist_Cons_right)

subsection \<open>Loading the store\<close>

text \<open>
  Claim C8.  When the request of \<^verbatim>\<open>fetchDeals\<close> fails, the store is what it was before
  the call (and what it is when the failure arrives, whatever has run in between); on
  the first load that is the empty list.  The error is set and, the spinner being gone,
  the banner with the Retry button shows it.  A response replaces the store by the whole
  list it carries: the store is never a mixture.
\<close>

theorem failed_fetch_keeps_store:
  "deals (fetchDeals props GetRejected (b :: 'z KanbanBoard)) = deals b \<and>
   deals (fetchDeals_resume props GetRejected b) = deals b \<and>
   error (fetchDeals props GetRejected b) = Some ''Failed to load deals. Please try again.'' \<and>
   retry_banner (fetchDeals props GetRejected b) = Some ''Failed to load deals. Please try again.'' \<and>
   deals (fetchDeals props GetRejected (initial_board :: 'z KanbanBoard)) = [] \<and>
   deals (fetchDeals props (GetWrapped ds) b) = ds \<and>
   deals (fetchDeals props (GetBare ds) b) = ds"
  by (simp add: fetchDeals_def fetchDeals_start_def fetchDeals_resume_def retry_banner_def
      initial_board_def)

theorem failed_fetch_keeps_store_witness:
  "deals (fetchDeals dashboard_props GetRejected (loaded [deal1, deal2])) = [deal1, deal2] \<and>
   retry_banner (fetchDeals dashboard_props GetRejected (loaded [deal1, deal2]))
     = Some ''Failed to load deals. Please try again.'' \<and>
   deals (fetchDeals dashboard_props GetRejected (initial_board :: unit KanbanBoard)) = [] \<and>
   deals (fetchDeals dashboard_props (GetWrapped [deal3]) (loaded [deal1, deal2])) = [deal3]"
proof -
  note a = failed_fetch_keeps_store [of dashboard_props "loaded [deal1, deal2]" "[deal3]"]
  note b = failed_fetch_keeps_store [of dashboard_props "initial_board :: unit KanbanBoard" "[]"]
  have l: "deals (loaded [deal1, deal2]) = [deal1, deal2]" by (simp add: loaded_def)
  from a b l show ?thesis by simp
qed

subsection \<open>The columns\<close>

text \<open>
  Claim C4.  For every list of deals, the keys of \<open>dealsByStatus\<close> are exactly the
  identifiers of the eight columns, which are all the statuses there are, each once; the
  bucket of a key is the list of the deals with that status in the order of the input
  (so it is a subsequence of the input, and empty when no deal has the status); and the
  buckets, concatenated in column order, have the deals of the input, each as often as
  the input has it.
\<close>

theorem partition_complete:
  "dom (dealsByStatus ds) = set (map col_id COLUMNS) \<and>
   distinct (map col_id COLUMNS) \<and> length COLUMNS = 8 \<and>
   (\<forall>k. k \<in> set (map col_id COLUMNS)) \<and>
   (\<forall>k. dealsByStatus ds k = Some (filter (\<lambda>deal. status deal = k) ds)) \<and>
   (\<forall>k. subseq (the (dealsByStatus ds k)) ds) \<and>
   mset (concat (map (\<lambda>col. the (dealsByStatus ds (col_id col))) COLUMNS)) = mset ds"
proof -
  have b: "\<forall>k. dealsByStatus ds k = Some (filter (\<lambda>deal. status deal = k) ds)"
    by (simp add: dealsByStatus_bucket)
  have c: "\<forall>k. k \<in> set (map col_id COLUMNS)" using COLUMNS_cover by blast
  have d: "dom (dealsByStatus ds) = set (map col_id COLUMNS)"
    using b c by (auto simp: dom_def)
  have e: "distinct (map col_id COLUMNS) \<and> length COLUMNS = 8"
    by (simp add: COLUMNS_def)
  have "map (\<lambda>col. the (dealsByStatus ds (col_id col))) COLUMNS
      = map (\<lambda>k. filter (\<lambda>deal. status deal = k) ds) (map col_id COLUMNS)"
    by (simp add: dealsByStatus_bucket o_def)
  then have f: "mset (concat (map (\<lambda>col. the (dealsByStatus ds (col_id col))) COLUMNS)) = mset ds"
    unfolding COLUMNS_ids by (simp only: mset_buckets)
  have g: "\<forall>k. subseq (the (dealsByStatus ds k)) ds"
    by (simp add: dealsByStatus_bucket)
  from b c d e f g show ?thesis by blast
qed

theorem partition_complete_witness:
  "dealsByStatus [deal1, deal2, deal3] lead = Some [deal1, deal2] \<and>
   dealsByStatus [deal1, deal2, deal3] qualified = Some [deal3] \<and>
   dealsByStatus [deal1, deal2, deal3] contacted = Some [] \<and>
   dealsByStatus [deal1, deal2, deal3] quotes_sent = Some [] \<and>
   dealsByStatus [deal1, deal2, deal3] trial_order = Some [] \<and>
   dealsByStatus [deal1, deal2, deal3] active_customer = Some [] \<and>
   dealsByStatus [deal1, deal2, deal3] retained_growing = Some [] \<and>
   dealsByStatus [deal1, deal2, deal3] lost_customer = Some [] \<and>
   dealsByStatus ([] :: Deal list) lost_customer = Some []"
proof -
  have b: "dealsByStatus [deal1, deal2, deal3] k
      = Some (filter (\<lambda>deal. status deal = k) [deal1, deal2, deal3])" for k
    using partition_complete [of "[deal1, deal2, deal3]"] by blast
  have c: "dealsByStatus ([] :: Deal list) k = Some (filter (\<lambda>deal. status deal = k) [])" for k
    using partition_complete [of "[] :: Deal list"] by blast
  show ?thesis unfolding b c by (simp add: deal1_def deal2_def deal3_def)
qed

subsection \<open>A second drag while a request is in flight\<close>

text \<open>
  Claim C9, as amended.  Let a second call of the handler, for the same deal or another,
  reach its request after the first has made its optimistic write and before the first
  request settles.  The rollback of the first call is not skipped: when the first
  request fails, the entry found for its deal is, once the failure has been handled,
  exactly the entry from before the first call, with its status and colour; the effects
  so far are the two requests, the console message and the timer.  (The amended claim is
  silent on what the second call has written.)
\<close>

theorem first_rollback_restores_its_deal:
  assumes "handleDragEnd_start r1 b = (Some c1, b1)"
    and "handleDragEnd_start r2 b1 = (Some c2, b2)"
  shows "findById (deals b) (c_dealId c1) = Some (c_originalDeal c1) \<and>
    findById (deals b1) (c_dealId c1) =
      Some ((c_originalDeal c1)\<lparr>status := c_newStatus c1,
                                color := Some (STATUS_COLORS (c_newStatus c1))\<rparr>) \<and>
    findById (deals (drag_during_drag_first_settled props r1 Rejected r2 b)) (c_dealId c1)
      = Some (c_originalDeal c1) \<and>
    effects (drag_during_drag_first_settled props r1 Rejected r2 b) =
      effects b @ [ApiPatch (c_dealId c1) (c_newStatus c1), ApiPatch (c_dealId c2) (c_newStatus c2),
                   ConsoleError ''Failed to update deal status:'', ClearErrorAfter 3000]"
proof -
  have st: "deals (drag_during_drag_first_settled props r1 Rejected r2 b) = deals b"
    using assms resume_Rejected_snapshot[OF assms(1), of props b2]
    by (simp add: drag_during_drag_first_settled_def)
  have ef: "effects (drag_during_drag_first_settled props r1 Rejected r2 b) =
      effects b @ [ApiPatch (c_dealId c1) (c_newStatus c1), ApiPatch (c_dealId c2) (c_newStatus c2),
                   ConsoleError ''Failed to update deal status:'', ClearErrorAfter 3000]"
    using assms handleDragEnd_start_closure(6)[OF assms(1)] handleDragEnd_start_closure(6)[OF assms(2)]
    by (simp add: drag_during_drag_first_settled_def handleDragEnd_resume_def)
  from st ef findById_closure[OF assms(1)] show ?thesis by simp
qed

theorem first_rollback_restores_its_deal_witness:
  "findById (deals (loaded [deal1, deal3])) 1 = Some deal1 \<and>
   findById (deals (snd (handleDragEnd_start (drop_on ''1'' lead 0 qualified 0) (loaded [deal1, deal3])))) 1
     = Some (deal1\<lparr>status := qualified, color := Some ''#6366f1''\<rparr>) \<and>
   findById (deals (drag_during_drag_first_settled dashboard_props (drop_on ''1'' lead 0 qualified 0) Rejected
            (drop_on ''3'' qualified 0 contacted 0) (loaded [deal1, deal3]))) 1 = Some deal1 \<and>
   effects (drag_during_drag_first_settled dashboard_props (drop_on ''1'' lead 0 qualified 0) Rejected
            (drop_on ''3'' qualified 0 contacted 0) (loaded [deal1, deal3])) =
     [ApiPatch 1 qualified, ApiPatch 3 contacted,
      ConsoleError ''Failed to update deal status:'', ClearErrorAfter 3000]"
proof -
  obtain c1 b1 where s1: "handleDragEnd_start (drop_on ''1'' lead 0 qualified 0) (loaded [deal1, deal3]) = (Some c1, b1)"
    and d1: "deals b1 = [deal1\<lparr>status := qualified, color := Some ''#6366f1''\<rparr>, deal3]"
    and c1: "c_dealId c1 = 1" "c_newStatus c1 = qualified" "c_originalDeal c1 = deal1"
    by (simp add: eval_defs)
  obtain c2 b2 where s2: "handleDragEnd_start (drop_on ''3'' qualified 0 contacted 0) b1 = (Some c2, b2)"
    and c2: "c_dealId c2 = 3" "c_newStatus c2 = contacted"
    using d1 by (simp add: eval_defs)
  show ?thesis
    using first_rollback_restores_its_deal [OF s1 s2, of dashboard_props] s1 c1 c2
    by (simp add: loaded_def)
qed

text \<open>
  Claim C9 as stated fails.  Deal 1 is moved from \<open>lead\<close> to \<open>qualified\<close> and, while
  that request is in flight, deal 3 from \<open>qualified\<close> to \<open>contacted\<close>.  The second call
  writes \<open>contacted\<close> into the entry of deal 3; the failure of the first request puts
  the old entry of deal 3 back, so that the write of the second call is gone although
  its request is still in flight, and stays gone when that request succeeds and the
  statistics callback is called.  If instead the second request fails as well, deal 1
  ends as \<open>qualified\<close>: the rollback of the first move has been overwritten.  The same
  happens when the second drag takes deal 1 itself from \<open>qualified\<close> on to \<open>contacted\<close>
  and both requests fail: deal 1 ends as \<open>qualified\<close>, a status no request confirmed.
\<close>

theorem concurrent_rollback_counterexample:
  "findById (deals (snd (handleDragEnd_start (drop_on ''3'' qualified 0 contacted 0)
       (snd (handleDragEnd_start (drop_on ''1'' lead 0 qualified 0) (loaded [deal1, deal3])))))) 3
     = Some (deal3\<lparr>status := contacted, color := Some ''#8b5cf6''\<rparr>) \<and>
   findById (deals (drag_during_drag_first_settled dashboard_props (drop_on ''1'' lead 0 qualified 0) Rejected
       (drop_on ''3'' qualified 0 contacted 0) (loaded [deal1, deal3]))) 3
     = Some deal3 \<and>
   deals (drag_during_drag dashboard_props (drop_on ''1'' lead 0 qualified 0) Rejected
       (drop_on ''3'' qualified 0 contacted 0) Resolved (loaded [deal1, deal3])) = [deal1, deal3] \<and>
   effects (drag_during_drag dashboard_props (drop_on ''1'' lead 0 qualified 0) Rejected
       (drop_on ''3'' qualified 0 contacted 0) Resolved (loaded [deal1, deal3]))
     = [ApiPatch 1 qualified, ApiPatch 3 contacted,
        ConsoleError ''Failed to update deal status:'', ClearErrorAfter 3000, StatsRefresh] \<and>
   findById (deals (drag_during_drag dashboard_props (drop_on ''1'' lead 0 qualified 0) Rejected
       (drop_on ''3'' qualified 0 contacted 0) Rejected (loaded [deal1, deal3]))) 1
     = Some (deal1\<lparr>status := qualified, color := Some ''#6366f1''\<rparr>) \<and>
   findById (deals (drag_during_drag dashboard_props (drop_on ''1'' lead 0 qualified 0) Rejected
       (drop_on ''1'' qualified 0 contacted 0) Rejected (loaded [deal1, deal3]))) 1
     = Some (deal1\<lparr>status := qualified, color := Some ''#6366f1''\<rparr>)"
  by (simp add: eval_defs2)

end
